theory Spec2Isabelle
  imports Main "HOL-Library.Word" "HOL-Library.Multiset" "HOL-Library.Product_Lexorder"
begin

section \<open>Data model of the conversation screen (ChatLayout.tsx)\<close>

text \<open>
  A JavaScript string is a sequence of UTF-16 code units. The component's identifiers
  (\<open>Chat.id\<close>, \<open>selectedId\<close>) are of type \<open>number\<close>; they are integral in the program
  (the ids of the chat list) and are modelled as \<open>int\<close>, compared with \<open>===\<close>.
  Optional fields (\<open>avatar?\<close>, \<open>online?\<close>, \<open>pinned?\<close>, \<open>unread?\<close>, \<open>status?\<close>) are options.
\<close>

type_synonym jsstring = "16 word list"

datatype Sender = Me | Them

datatype Status = Sent | Delivered | Seen

record Message =
  msg_id :: jsstring
  sender :: Sender
  msg_text :: jsstring
  at :: jsstring
  status :: "Status option"

record Chat =
  chat_id :: int
  name :: jsstring
  avatar :: "jsstring option"
  online :: "bool option"
  pinned :: "bool option"
  unread :: "int option"
  messages :: "Message list"

text \<open>
  The React state of the component that the handlers below read and write:
  \<open>chats\<close>, \<open>selectedId\<close>, \<open>newMessage\<close> (the composer text) and \<open>isTyping\<close>.
\<close>

record ui_state =
  chats :: "Chat list"
  selectedId :: int
  newMessage :: jsstring
  isTyping :: bool

datatype error = InvalidArgument | Forbidden | NotFound | Timeout | Unavailable | TypeError

subsection \<open>String.prototype.trim\<close>

text \<open>
  \<open>trim\<close> removes leading and trailing WhiteSpace and LineTerminator code points
  (ECMAScript: TAB, VT, FF, SP, NBSP, ZWNBSP, the Unicode space separators, LF, CR, LS, PS).
  All of them are single code units.
\<close>

definition isWhiteSpace :: "16 word \<Rightarrow> bool" where
  "isWhiteSpace u =
     (u = 0x0009 \<or> u = 0x000A \<or> u = 0x000B \<or> u = 0x000C \<or> u = 0x000D \<or> u = 0x0020 \<or>
      u = 0x00A0 \<or> u = 0x1680 \<or> (0x2000 \<le> u \<and> u \<le> 0x200A) \<or> u = 0x2028 \<or>
      u = 0x2029 \<or> u = 0x202F \<or> u = 0x205F \<or> u = 0x3000 \<or> u = 0xFEFF)"

definition trim :: "jsstring \<Rightarrow> jsstring" where
  "trim s = rev (dropWhile isWhiteSpace (rev (dropWhile isWhiteSpace s)))"

subsection \<open>The composer: typing and sending\<close>


text \<open>
  \<open>handleSend\<close>. The fresh message id (\<open>crypto.randomUUID()\<close>) and the time stamp
  (\<open>new Date().toISOString()\<close>) come from the runtime and are parameters. The handler
  has no \<open>throw\<close>: its result is \<open>Inr\<close> of the next state on every path, the early
  \<open>return\<close> on an empty trimmed text included.
\<close>

definition mkMessage :: "jsstring \<Rightarrow> jsstring \<Rightarrow> jsstring \<Rightarrow> Message" where
  "mkMessage uuid now txt =
     \<lparr>msg_id = uuid, sender = Me, msg_text = txt, at = now, status = Some Sent\<rparr>"

definition appendTo :: "int \<Rightarrow> Message \<Rightarrow> Chat list \<Rightarrow> Chat list" where
  "appendTo sel msg prev =
     map (\<lambda>c. if chat_id c = sel then c\<lparr>messages := messages c @ [msg]\<rparr> else c) prev"

definition handleSend :: "jsstring \<Rightarrow> jsstring \<Rightarrow> ui_state \<Rightarrow> error + ui_state" where
  "handleSend uuid now s =
     (let txt = trim (newMessage s) in
      if txt = [] then Inr s
      else Inr (s\<lparr>chats := appendTo (selectedId s) (mkMessage uuid now txt) (chats s),
                 newMessage := [],
                 isTyping := False\<rparr>))"




subsection \<open>Clearing the unread badge of the opened chat\<close>

text \<open>
  The effect on \<open>selectedId\<close>:
  \<open>setChats(prev => prev.map(c => c.id === selectedId ? {...c, unread: 0} : c))\<close>.
\<close>

definition clearUnread :: "int \<Rightarrow> Chat list \<Rightarrow> Chat list" where
  "clearUnread sel prev = map (\<lambda>c. if chat_id c = sel then c\<lparr>unread := Some 0\<rparr> else c) prev"

subsection \<open>Day labels\<close>

text \<open>
  \<open>dayLabel\<close> reads the runtime's \<open>Date\<close>: parsing an ISO string and reading its local
  calendar fields, and the current instant. These belong to the runtime and are taken as
  parameters: \<open>parseDate s\<close> is \<open>None\<close> when \<open>new Date(s)\<close> is an Invalid Date (all its
  fields are \<open>NaN\<close>) and otherwise the local \<open>getFullYear()\<close>, \<open>getMonth()\<close> (from 0) and
  \<open>getDate()\<close>; \<open>todayISO\<close> and \<open>yesterdayISO\<close> are \<open>today.toISOString()\<close> and
  \<open>yesterday.toISOString()\<close>. The clock is fixed while one list of messages is grouped.
\<close>

record ymd =
  fullYear :: int
  month :: int
  date :: int

record clock =
  parseDate :: "jsstring \<Rightarrow> ymd option"
  todayISO :: jsstring
  yesterdayISO :: jsstring

definition lit :: "string \<Rightarrow> jsstring" where
  "lit cs = map (\<lambda>c. of_nat (of_char c)) cs"

fun digits :: "nat \<Rightarrow> jsstring" where
  "digits n = (if n < 10 then [of_nat (48 + n)] else digits (n div 10) @ [of_nat (48 + n mod 10)])"

declare digits.simps [simp del]

definition numToString :: "int \<Rightarrow> jsstring" where
  "numToString x = (if x < 0 then lit ''-'' @ digits (nat (- x)) else digits (nat x))"

definition pad :: "int \<Rightarrow> jsstring" where
  "pad x = (if x < 10 then lit ''0'' @ numToString x else numToString x)"

definition isSameDay :: "clock \<Rightarrow> jsstring \<Rightarrow> jsstring \<Rightarrow> bool" where
  "isSameDay clk a b =
     (case parseDate clk a of
        None \<Rightarrow> False
      | Some da \<Rightarrow>
          (case parseDate clk b of
             None \<Rightarrow> False
           | Some db \<Rightarrow>
               fullYear da = fullYear db \<and> month da = month db \<and> date da = date db))"

definition dayLabel :: "clock \<Rightarrow> jsstring \<Rightarrow> jsstring" where
  "dayLabel clk isoStr =
     (if isSameDay clk isoStr (todayISO clk) then lit ''Today''
      else if isSameDay clk isoStr (yesterdayISO clk) then lit ''Yesterday''
      else (case parseDate clk isoStr of
              None \<Rightarrow> lit ''NaN/NaN/NaN''
            | Some d \<Rightarrow>
                pad (date d) @ lit ''/'' @ pad (month d + 1) @ lit ''/'' @ numToString (fullYear d)))"

subsection \<open>Grouping the messages of the open chat by day\<close>

text \<open>
  The loop of \<open>groups\<close> over \<open>selectedChat.messages\<close>, with \<open>out\<close> as accumulator.
  \<open>last\<close> is \<open>out[out.length - 1]\<close>, undefined exactly when \<open>out\<close> is empty;
  \<open>last.items[0].at\<close> throws a TypeError when \<open>last.items\<close> is empty.
\<close>

record Group =
  day :: jsstring
  items :: "Message list"

fun groups_loop :: "clock \<Rightarrow> Group list \<Rightarrow> Message list \<Rightarrow> error + Group list" where
  "groups_loop clk out [] = Inr out"
| "groups_loop clk out (m # ms) =
     (let lbl = dayLabel clk (at m) in
      if out = [] then groups_loop clk (out @ [\<lparr>day = lbl, items = [m]\<rparr>]) ms
      else
        (let lst = last out in
         case items lst of
           [] \<Rightarrow> Inl TypeError
         | first # _ \<Rightarrow>
             if dayLabel clk (at first) \<noteq> lbl
             then groups_loop clk (out @ [\<lparr>day = lbl, items = [m]\<rparr>]) ms
             else groups_loop clk (butlast out @ [lst\<lparr>items := items lst @ [m]\<rparr>]) ms))"

definition groups :: "clock \<Rightarrow> Message list \<Rightarrow> error + Group list" where
  "groups clk ms = groups_loop clk [] ms"

subsection \<open>The sidebar: sorting pinned chats first and filtering by the query\<close>








section \<open>The realtime delivery core of the specification\<close>

text \<open>
  The repository implements no chat server: the README describes one, and the
  specification reconstructs its core (sections 3 to 7). The definitions of this section
  are written from those sections; identifiers, connection handles and time stamps are
  natural numbers.
\<close>

text \<open>
  Modelled from the spec: the Message of section 3, missing from the sources: its
  identifier, its conversation, its sender, its body and its creation timestamp.
\<close>

record StoredMessage =
  m_id :: nat
  m_conv :: nat
  m_sender :: nat
  m_body :: jsstring
  m_ts :: nat

subsection \<open>Pagination Cursor Resolver (section 4.5)\<close>

















subsection \<open>Session Registry, Message Pipeline and receipts (sections 4.1, 4.3, 4.4)\<close>

text \<open>
  Modelled from the spec: the status of a Receipt (section 3), delivered or read, missing
  from the sources.
\<close>

datatype receipt_status = DeliveredTo | ReadBy

text \<open>
  Modelled from the spec: the event kinds of sections 4.3 and 6, missing from the sources:
  MESSAGE (conversation, persisted message id), TYPING (conversation, user, flag), READ
  (conversation, user, up-to message id) and PRESENCE (user, online flag).
\<close>

datatype event =
    MESSAGE nat nat
  | TYPING nat nat bool
  | READ nat nat nat
  | PRESENCE nat bool

text \<open>
  Modelled from the spec: the state of the core, missing from the sources: the
  participants of each conversation (the storage collaborator's \<open>listParticipants\<close>), the
  registry (the user of each connection, the connections subscribed to each conversation),
  the stored messages and the receipts, one per (message, user).
\<close>

record server =
  participants :: "nat \<rightharpoonup> nat set"
  connUser :: "nat \<rightharpoonup> nat"
  connectionsFor :: "nat \<Rightarrow> nat set"
  stored :: "StoredMessage list"
  receipts :: "nat \<times> nat \<rightharpoonup> receipt_status"

text \<open>
  Modelled from the spec: \<open>subscribe(connectionHandle, conversationId)\<close> of the Session
  Registry, missing from the sources. The caller is the user the connection was registered
  for; a caller who is not a participant of the conversation fails with Forbidden. An
  unknown connection or conversation is answered with NotFound.
\<close>

definition subscribe :: "server \<Rightarrow> nat \<Rightarrow> nat \<Rightarrow> (error + unit) \<times> server" where
  "subscribe st conn conv =
     (case connUser st conn of
        None \<Rightarrow> (Inl NotFound, st)
      | Some u \<Rightarrow>
          (case participants st conv of
             None \<Rightarrow> (Inl NotFound, st)
           | Some ps \<Rightarrow>
               if u \<notin> ps then (Inl Forbidden, st)
               else (Inr (),
                     st\<lparr>connectionsFor :=
                          (connectionsFor st)(conv := insert conn (connectionsFor st conv))\<rparr>)))"

text \<open>
  Modelled from the spec: \<open>send(conversationId, senderId, body)\<close> of the Message Pipeline,
  missing from the sources. In the order of section 4.4: the sender must be a participant
  (Forbidden); the trimmed body must not be empty (InvalidArgument); the message is
  persisted by the storage collaborator, whose answer \<open>ins\<close> is either the assigned
  (id, timestamp) or an error (Timeout when the caller's deadline passed, Unavailable);
  only after a successful persistence is a MESSAGE event handed to the Conversation Router.
  The result is the answer to the caller, the next state and the events handed to the
  router.
\<close>

definition send ::
  "server \<Rightarrow> nat \<Rightarrow> nat \<Rightarrow> jsstring \<Rightarrow> error + (nat \<times> nat)
     \<Rightarrow> (error + StoredMessage) \<times> server \<times> event list" where
  "send st conv senderId body ins =
     (case participants st conv of
        None \<Rightarrow> (Inl NotFound, st, [])
      | Some ps \<Rightarrow>
          if senderId \<notin> ps then (Inl Forbidden, st, [])
          else if trim body = [] then (Inl InvalidArgument, st, [])
          else
            (case ins of
               Inl e \<Rightarrow> (Inl e, st, [])
             | Inr (i, ts) \<Rightarrow>
                 (let m = \<lparr>m_id = i, m_conv = conv, m_sender = senderId, m_body = body,
                            m_ts = ts\<rparr>
                  in (Inr m, st\<lparr>stored := stored st @ [m]\<rparr>, [MESSAGE conv i]))))"

text \<open>
  Modelled from the spec: \<open>markRead(conversationId, userId, uptoMessageId)\<close>, missing from
  the sources. Section 4.4 gives the upsert (a Read receipt for every message of the
  conversation with identifier at most \<open>uptoMessageId\<close> and another sender) and the single
  aggregated READ event; the rejection of a non-participant with Forbidden is that of
  sections 3 and 7 (receipts exist only for participants; non-participant access is
  Forbidden).
\<close>

definition markRead ::
  "server \<Rightarrow> nat \<Rightarrow> nat \<Rightarrow> nat \<Rightarrow> (error + unit) \<times> server \<times> event list" where
  "markRead st conv userId uptoId =
     (case participants st conv of
        None \<Rightarrow> (Inl NotFound, st, [])
      | Some ps \<Rightarrow>
          if userId \<notin> ps then (Inl Forbidden, st, [])
          else
            (Inr (),
             st\<lparr>receipts :=
                  (\<lambda>(mid, u).
                     if u = userId \<and>
                        list_ex (\<lambda>m. m_id m = mid \<and> m_conv m = conv \<and> m_id m \<le> uptoId \<and>
                                      m_sender m \<noteq> userId) (stored st)
                     then Some ReadBy
                     else receipts st (mid, u))\<rparr>,
             [READ conv userId uptoId]))"

subsection \<open>Presence Tracker (sections 4.1 and 4.2)\<close>











subsection \<open>Notions used to state the properties of the screen\<close>



text \<open>A group is uniform: it has an item, and every item carries the group's day label.\<close>

definition uniform :: "clock \<Rightarrow> Group \<Rightarrow> bool" where
  "uniform clk g = (items g \<noteq> [] \<and> list_all (\<lambda>m. dayLabel clk (at m) = day g) (items g))"

subsection \<open>Sample data\<close>

text \<open>
  A chat list in the shape of the component's initial state (Minh pinned, Lan without the
  \<open>pinned\<close> field), a third chat, and a sample clock whose parser reads the day of the
  month from the first code unit of the string.
\<close>

definition ex_msg :: "jsstring \<Rightarrow> Sender \<Rightarrow> jsstring \<Rightarrow> Message" where
  "ex_msg i who t = \<lparr>msg_id = i, sender = who, msg_text = lit ''hello'', at = t, status = None\<rparr>"

definition ex_minh :: Chat where
  "ex_minh = \<lparr>chat_id = 1, name = lit ''Minh'', avatar = None, online = Some True,
              pinned = Some True, unread = Some 2,
              messages = [ex_msg (lit ''m1'') Them [25], ex_msg (lit ''m2'') Me [26]]\<rparr>"

definition ex_lan :: Chat where
  "ex_lan = \<lparr>chat_id = 2, name = lit ''Lan'', avatar = None, online = Some False,
             pinned = None, unread = Some 0, messages = [ex_msg (lit ''l1'') Them [26]]\<rparr>"

definition ex_linh :: Chat where
  "ex_linh = \<lparr>chat_id = 3, name = lit ''Linh'', avatar = None, online = None,
              pinned = Some True, unread = None, messages = []\<rparr>"

definition ex_state :: ui_state where
  "ex_state = \<lparr>chats = [ex_lan, ex_minh, ex_linh], selectedId = 1,
               newMessage = [0x20, 0x09, 0xA0], isTyping = True\<rparr>"

definition ex_clock :: clock where
  "ex_clock = \<lparr>parseDate = (\<lambda>s. case s of [] \<Rightarrow> None
                                   | u # _ \<Rightarrow> Some \<lparr>fullYear = 2025, month = 7, date = uint u\<rparr>),
               todayISO = [27], yesterdayISO = [26]\<rparr>"







text \<open>
  Six inserts: five messages of conversation 1 (two of them with the same timestamp) and
  one of conversation 2; and, for every \<open>n\<close>, the store after \<open>n\<close> inserts into
  conversation 1 at the times \<open>0, 1, \<dots>\<close>.
\<close>

definition ex_stored :: "nat \<Rightarrow> nat \<Rightarrow> nat \<Rightarrow> StoredMessage" where
  "ex_stored i conv ts = \<lparr>m_id = i, m_conv = conv, m_sender = 7, m_body = lit ''hi'', m_ts = ts\<rparr>"



text \<open>
  A server state with one conversation (participants 7 and 8; connection 12 belongs to
  user 9, who is no participant), and a presence run of user 7: two connections, a sweep
  before the TTL has run out, the disconnect of one of the two connections, a keepalive, a
  sweep after the TTL has run out, the disconnect of the other connection, a new
  connection and its disconnect.
\<close>

definition ex_server :: server where
  "ex_server = \<lparr>participants = [1 \<mapsto> {7, 8}], connUser = [11 \<mapsto> 7, 12 \<mapsto> 9],
                connectionsFor = (\<lambda>_. {})(1 := {11}),
                stored = [ex_stored 101 1 10], receipts = Map.empty\<rparr>"



section \<open>Properties of the conversation screen\<close>

subsection \<open>Sending\<close>




text \<open>
  C1 (as the code has it). When the trimmed composer text is empty, \<open>handleSend\<close> returns
  normally, without any error, and the state it leaves is the state it found: the chat
  list, the composer text and the typing flag are unchanged.
\<close>

theorem handleSend_blank_noop:
  "trim (newMessage s) = [] \<Longrightarrow> handleSend uuid now s = Inr s"
  by (simp add: handleSend_def)

theorem handleSend_blank_noop_witness:
  "trim (newMessage ex_state) = [] \<and> handleSend (lit ''u1'') [27] ex_state = Inr ex_state"
proof -
  have blank: "trim (newMessage ex_state) = []"
    by (simp add: ex_state_def trim_def isWhiteSpace_def)
  from handleSend_blank_noop [OF blank] blank show ?thesis by simp
qed

text \<open>
  C1 as stated fails: on a composer text of white space only, \<open>handleSend\<close> does not
  fail with InvalidArgument; it returns.
\<close>

theorem handleSend_blank_not_InvalidArgument:
  "trim (newMessage ex_state) = [] \<and>
   handleSend (lit ''u1'') [27] ex_state \<noteq> Inl InvalidArgument"
  by (simp add: handleSend_def ex_state_def trim_def isWhiteSpace_def)



subsection \<open>Clearing the unread badge\<close>

text \<open>
  C3. Clearing the unread count of a conversation twice gives the chat list that clearing
  it once gives.
\<close>

theorem clearUnread_idempotent:
  "clearUnread sel (clearUnread sel cs) = clearUnread sel cs"
  by (simp add: clearUnread_def)

text \<open>
  C5. \<open>clearUnread\<close> keeps the length and the positions of the chat list; a chat whose id
  is the selected one becomes the same chat with \<open>unread\<close> set to 0, all its other fields
  as before; every other chat is unchanged.
\<close>

theorem clearUnread_frame:
  "length (clearUnread sel cs) = length cs \<and>
   (\<forall>i < length cs.
      (chat_id (cs ! i) = sel \<longrightarrow>
         clearUnread sel cs ! i = (cs ! i)\<lparr>unread := Some 0\<rparr> \<and>
         unread (clearUnread sel cs ! i) = Some 0 \<and>
         chat_id (clearUnread sel cs ! i) = chat_id (cs ! i) \<and>
         name (clearUnread sel cs ! i) = name (cs ! i) \<and>
         avatar (clearUnread sel cs ! i) = avatar (cs ! i) \<and>
         online (clearUnread sel cs ! i) = online (cs ! i) \<and>
         pinned (clearUnread sel cs ! i) = pinned (cs ! i) \<and>
         messages (clearUnread sel cs ! i) = messages (cs ! i)) \<and>
      (chat_id (cs ! i) \<noteq> sel \<longrightarrow> clearUnread sel cs ! i = cs ! i))"
  by (simp add: clearUnread_def)

theorem clearUnread_frame_witness:
  "clearUnread 1 [ex_lan, ex_minh, ex_linh] = [ex_lan, ex_minh\<lparr>unread := Some 0\<rparr>, ex_linh] \<and>
   unread (clearUnread 1 [ex_lan, ex_minh, ex_linh] ! 1) = Some 0 \<and>
   messages (clearUnread 1 [ex_lan, ex_minh, ex_linh] ! 1) = messages ex_minh \<and>
   clearUnread 1 [ex_lan, ex_minh, ex_linh] ! 0 = ex_lan"
  using clearUnread_frame [of 1 "[ex_lan, ex_minh, ex_linh]"]
  by (simp add: clearUnread_def ex_lan_def ex_minh_def ex_linh_def)

subsection \<open>Grouping by day\<close>

lemma concat_snoc: "concat (map items (xs @ [g])) = concat (map items xs) @ items g"
  by simp

lemma concat_butlast_last:
  assumes "out \<noteq> []"
  shows "concat (map items (butlast out @ [(last out)\<lparr>items := items (last out) @ [m]\<rparr>]))
     = concat (map items out) @ [m]"
proof -
  have "concat (map items out) = concat (map items (butlast out @ [last out]))"
    using assms by simp
  also have "\<dots> = concat (map items (butlast out)) @ items (last out)"
    by (rule concat_snoc)
  finally show ?thesis by (simp only: concat_snoc) simp
qed

lemma groups_loop_inv:
  "list_all (uniform clk) out \<Longrightarrow>
   \<exists>gs. groups_loop clk out ms = Inr gs \<and> concat (map items gs) = concat (map items out) @ ms \<and>
        list_all (uniform clk) gs"
proof (induction ms arbitrary: out)
  case Nil
  then show ?case by simp
next
  case (Cons m ms)
  let ?lbl = "dayLabel clk (at m)"
  let ?new = "out @ [\<lparr>day = ?lbl, items = [m]\<rparr>]"
  have "uniform clk \<lparr>day = ?lbl, items = [m]\<rparr>" by (simp add: uniform_def)
  then have new_ok: "list_all (uniform clk) ?new"
    using Cons.prems by simp
  have new_cat: "concat (map items ?new) = concat (map items out) @ [m]" by simp
  show ?case
  proof (cases "out = []")
    case True
    have unf: "groups_loop clk out (m # ms) = groups_loop clk ?new ms"
      using True by (simp add: Let_def)
    from Cons.IH[OF new_ok] obtain gs where
      g: "groups_loop clk ?new ms = Inr gs" "concat (map items gs) = concat (map items ?new) @ ms"
      "list_all (uniform clk) gs" by blast
    have "concat (map items gs) = concat (map items out) @ m # ms"
      unfolding g(2) new_cat by simp
    then show ?thesis unfolding unf using g(1,3) by (intro exI[of _ gs] conjI)
  next
    case False
    then have lastin: "last out \<in> set out" by simp
    with Cons.prems have ul: "uniform clk (last out)" by (simp add: list_all_iff)
    then obtain f fs where its: "items (last out) = f # fs"
      by (cases "items (last out)") (auto simp: uniform_def)
    from ul its have flbl: "dayLabel clk (at f) = day (last out)" by (simp add: uniform_def)
    show ?thesis
    proof (cases "dayLabel clk (at f) = ?lbl")
      case neq: False
      have unf: "groups_loop clk out (m # ms) = groups_loop clk ?new ms"
        using False its neq by (simp add: Let_def)
      from Cons.IH[OF new_ok] obtain gs where
        g: "groups_loop clk ?new ms = Inr gs" "concat (map items gs) = concat (map items ?new) @ ms"
        "list_all (uniform clk) gs" by blast
      have "concat (map items gs) = concat (map items out) @ m # ms"
        unfolding g(2) new_cat by simp
      then show ?thesis unfolding unf using g(1,3) by (intro exI[of _ gs] conjI)
    next
      case eq: True
      let ?ext = "butlast out @ [(last out)\<lparr>items := items (last out) @ [m]\<rparr>]"
      have "list_all (uniform clk) (butlast out)"
        using Cons.prems by (auto simp: list_all_iff dest: in_set_butlastD)
      moreover have "uniform clk ((last out)\<lparr>items := items (last out) @ [m]\<rparr>)"
        using ul eq flbl by (simp add: uniform_def)
      ultimately have ext_ok: "list_all (uniform clk) ?ext" by simp
      have ext_cat: "concat (map items ?ext) = concat (map items out) @ [m]"
        using False by (rule concat_butlast_last)
      have unf: "groups_loop clk out (m # ms) = groups_loop clk ?ext ms"
        using False its eq by (simp add: Let_def)
      from Cons.IH[OF ext_ok] obtain gs where
        g: "groups_loop clk ?ext ms = Inr gs" "concat (map items gs) = concat (map items ?ext) @ ms"
        "list_all (uniform clk) gs" by blast
      have "concat (map items gs) = concat (map items out) @ m # ms"
        unfolding g(2) ext_cat by simp
      then show ?thesis unfolding unf using g(1,3) by (intro exI[of _ gs] conjI)
    qed
  qed
qed

text \<open>
  C4. For every message list, \<open>groups\<close> returns (it does not throw); the items of the
  groups, concatenated in group order, are the message list itself; every group has an
  item, and every item of a group has the group's day label.
\<close>

theorem groups_lossless_partition:
  "\<exists>gs. groups clk ms = Inr gs \<and> concat (map items gs) = ms \<and>
        (\<forall>g \<in> set gs. items g \<noteq> [] \<and> (\<forall>m \<in> set (items g). dayLabel clk (at m) = day g))"
proof -
  from groups_loop_inv [of clk "[]" ms] obtain gs where
    g: "groups_loop clk [] ms = Inr gs" "concat (map items gs) = ms"
       "list_all (uniform clk) gs" by auto
  from g(3) have "\<forall>g \<in> set gs. items g \<noteq> [] \<and> (\<forall>m \<in> set (items g). dayLabel clk (at m) = day g)"
    by (simp add: list_all_iff uniform_def)
  with g(1,2) show ?thesis unfolding groups_def by blast
qed

theorem groups_lossless_partition_witness:
  "groups ex_clock [ex_msg (lit ''m1'') Them [25], ex_msg (lit ''m2'') Me [26],
                    ex_msg (lit ''m3'') Me [26], ex_msg (lit ''m4'') Me [27]] =
     Inr [\<lparr>day = lit ''25/08/2025'', items = [ex_msg (lit ''m1'') Them [25]]\<rparr>,
          \<lparr>day = lit ''Yesterday'',
             items = [ex_msg (lit ''m2'') Me [26], ex_msg (lit ''m3'') Me [26]]\<rparr>,
          \<lparr>day = lit ''Today'', items = [ex_msg (lit ''m4'') Me [27]]\<rparr>]"
  using groups_lossless_partition [of ex_clock
      "[ex_msg (lit ''m1'') Them [25], ex_msg (lit ''m2'') Me [26],
        ex_msg (lit ''m3'') Me [26], ex_msg (lit ''m4'') Me [27]]"]
  by (simp add: groups_def dayLabel_def isSameDay_def ex_clock_def pad_def numToString_def
        digits.simps lit_def ex_msg_def Let_def)

subsection \<open>The sidebar filter\<close>














section \<open>Properties of the realtime delivery core\<close>

subsection \<open>Pagination\<close>















subsection \<open>Authorization and the send pipeline\<close>

text \<open>
  C8. For a user who is not a participant of the conversation, \<open>send\<close>, \<open>markRead\<close> and
  (on a connection of that user) \<open>subscribe\<close> answer Forbidden, hand no event to the router
  and leave the state (registry, messages, receipts) as it was.
\<close>

theorem non_participant_forbidden:
  assumes "participants st conv = Some ps" and "u \<notin> ps"
  shows "send st conv u body ins = (Inl Forbidden, st, []) \<and>
         markRead st conv u uptoId = (Inl Forbidden, st, []) \<and>
         (connUser st c = Some u \<longrightarrow> subscribe st c conv = (Inl Forbidden, st))"
  using assms by (simp add: send_def markRead_def subscribe_def)

theorem non_participant_forbidden_witness:
  "participants ex_server 1 = Some {7, 8} \<and> 9 \<notin> {7, 8 :: nat} \<and> connUser ex_server 12 = Some 9 \<and>
   send ex_server 1 9 (lit ''hi'') (Inr (102, 11)) = (Inl Forbidden, ex_server, []) \<and>
   markRead ex_server 1 9 101 = (Inl Forbidden, ex_server, []) \<and>
   subscribe ex_server 12 1 = (Inl Forbidden, ex_server)"
proof -
  have p: "participants ex_server 1 = Some {7, 8}" by (simp add: ex_server_def)
  have n: "9 \<notin> {7, 8 :: nat}" by simp
  have c: "connUser ex_server 12 = Some 9" by (simp add: ex_server_def)
  from non_participant_forbidden [OF p n, of "lit ''hi''" "Inr (102, 11)" 101 12] p n c
  show ?thesis by simp
qed



text \<open>
  The specified \<open>markRead\<close> is idempotent on the state: the receipts after a second call
  with the same arguments are the receipts after the first.
\<close>

lemma markRead_idempotent:
  "fst (snd (markRead (fst (snd (markRead st conv u k))) conv u k)) =
   fst (snd (markRead st conv u k))"
  by (auto simp: markRead_def fun_eq_iff split: option.splits)

subsection \<open>Presence\<close>















end
